theory Spec2Isabelle
  imports Complex_Main "HOL-Library.Sublist" "HOL-Library.AList"
begin

section \<open>Conventions of the embedding\<close>

text \<open>
  The claims pipeline (damage\_assessment.py, xactimate\_integration.py,
  payment\_processing.py) is embedded function by function.

  \<^item> A JSON object with fixed keys is a record. A key that the code reads with
    \<open>d.get(k, default)\<close> or tests with \<open>k in d\<close> is an optional field, \<open>None\<close> for an
    absent key; a key of an object that only the pipeline writes, always with that key, is
    a plain field. Where two objects share a key the fields carry a prefix (\<open>md_\<close>,
    \<open>pi_\<close>, \<open>sr_\<close>, \<open>pr_\<close>, \<open>ci_\<close>, \<open>jd_\<close>, \<open>claim_\<close>, \<open>summary_\<close>).
  \<^item> A JSON object whose keys are data (damage categories) is an association list, in
    insertion order.
  \<^item> Python numbers are rationals with exact arithmetic: the rounding error of binary64
    floats is outside this embedding, and \<open>int\<close> and \<open>float\<close> are not told apart.
  \<^item> Strings are ASCII character lists. The decimal rendering of a number inside an
    f-string is a parameter \<open>fmt\<close> of the functions that build such strings.
  \<^item> \<open>uuid.uuid4()\<close>, \<open>datetime.now()\<close> and the draws of \<open>random\<close> are inputs of the
    functions that call them; the clock readings of one call are taken as one instant.
  \<^item> An exception that leaves a function is a value \<open>Inl e\<close>; an exception that a
    \<open>try\<close> block catches is the branch the handler takes. Whether a file can be
    written is an input of the function that writes it.
  \<^item> Log output and \<open>time.sleep\<close> are not modelled.
\<close>

type_synonym num = rat

datatype py_error =
  KeyError | IndexError | ValueError | TypeError | AttributeError
  | ZeroDivisionError | OSError

subsection \<open>Strings\<close>

definition upper_char :: "char \<Rightarrow> char" where
  "upper_char c =
     (let n = (of_char c :: nat) in if 97 \<le> n \<and> n \<le> 122 then char_of (n - 32) else c)"

definition lower_char :: "char \<Rightarrow> char" where
  "lower_char c =
     (let n = (of_char c :: nat) in if 65 \<le> n \<and> n \<le> 90 then char_of (n + 32) else c)"

definition upper :: "string \<Rightarrow> string" where
  "upper s = map upper_char s"

definition lower :: "string \<Rightarrow> string" where
  "lower s = map lower_char s"

definition capitalize :: "string \<Rightarrow> string" where
  "capitalize s = (case s of [] \<Rightarrow> [] | c # cs \<Rightarrow> upper_char c # lower cs)"

subsection \<open>Dates\<close>

record datetime =
  year :: int
  month :: int
  day :: int
  hour :: int
  minute :: int
  second :: int
  microsecond :: int

definition is_leap :: "int \<Rightarrow> bool" where
  "is_leap y = (y mod 4 = 0 \<and> (y mod 100 \<noteq> 0 \<or> y mod 400 = 0))"

definition days_in_month :: "int \<Rightarrow> int \<Rightarrow> int" where
  "days_in_month y m =
     (if m = 2 then (if is_leap y then 29 else 28)
      else if m = 4 \<or> m = 6 \<or> m = 9 \<or> m = 11 then 30 else 31)"

text \<open>\<open>dt.replace(day=d)\<close>: a day outside the month raises ValueError.\<close>

definition replace_day :: "datetime \<Rightarrow> int \<Rightarrow> py_error + datetime" where
  "replace_day dt d =
     (if 1 \<le> d \<and> d \<le> days_in_month (year dt) (month dt) then Inr (dt\<lparr>day := d\<rparr>)
      else Inl ValueError)"

section \<open>Records of the pipeline\<close>

text \<open>One category's entry of \<open>damage_assessment\<close> in an Assessment.\<close>

record damage_details =
  severity :: "num option"
  confidence :: "num option"
  area_percentage :: "num option"

text \<open>
  A measurement block of \<open>xactimate_measurements\<close>. The keys of the five kinds of
  block are the fields of one record; the structural block's \<open>severity\<close> is
  \<open>structural_severity\<close> and the debris block's \<open>type\<close> is \<open>debris_type\<close>.
\<close>

record measurements =
  area_sqft :: "num option"
  pitch :: "string option"
  material :: "string option"
  damage_percentage :: "num option"
  affected_components :: "string list option"
  structural_severity :: "string option"
  affected_area_sqft :: "num option"
  depth_inches :: "num option"
  category :: "num option"
  volume_cubic_yards :: "num option"
  debris_type :: "string option"

definition no_measurements :: measurements where
  "no_measurements =
     \<lparr>area_sqft = None, pitch = None, material = None, damage_percentage = None,
      affected_components = None, structural_severity = None, affected_area_sqft = None,
      depth_inches = None, category = None, volume_cubic_yards = None,
      debris_type = None\<rparr>"

record assessment =
  photo_id :: string
  job_id :: string
  assessment_id :: string
  timestamp :: datetime
  damage_assessment :: "(string \<times> damage_details) list"
  xactimate_measurements :: "(string \<times> measurements) list"
  overall_severity :: num
  overall_confidence :: num

text \<open>An entry of \<open>damage_summary\<close> in a job summary.\<close>

record damage_average =
  avg_severity :: num
  avg_confidence :: num
  avg_area_percentage :: num
  photo_count :: nat

record job_summary =
  summary_job_id :: string
  assessment_count :: nat
  summary_timestamp :: datetime
  damage_summary :: "(string \<times> damage_average) list option"
  xactimate_summary :: "(string \<times> measurements list) list option"
  summary_overall_severity :: "num option"
  summary_overall_confidence :: "num option"
  xactimate_ready :: "bool option"

record line_item =
  item_category :: string
  item_id :: string
  description :: string
  quantity :: num
  unit :: string
  unit_price :: num
  line_total :: num
  item_notes :: string

text \<open>The \<open>totals\<close> of a claim; \<open>format_for_xactimate\<close>, its only writer, sets the
  four keys.\<close>

record totals =
  subtotal :: num
  tax_rate :: num
  tax :: num
  total :: num

record property_info =
  address :: string
  property_type :: string
  year_built :: int
  square_footage :: int

record damage_info =
  event_type :: string
  date_of_loss :: datetime
  info_overall_severity :: num
  damage_types :: "string list"

text \<open>A claim file. \<open>format_for_xactimate\<close> writes no \<open>contractor_id\<close>; the payment
  processor reads one with a default.\<close>

record claim =
  claim_id :: string
  claim_job_id :: string
  claim_timestamp :: datetime
  claim_property_info :: property_info
  claim_damage_info :: damage_info
  line_items :: "line_item list"
  claim_totals :: "totals option"
  contractor_id :: "string option"
  claim_status :: string

record job_data =
  jd_job_id :: string
  jd_summary :: job_summary
  jd_assessments :: "assessment list"

section \<open>Claim formatter (xactimate\_integration.py)\<close>

text \<open>\<open>d.get(k, default)\<close> on an optional field.\<close>

definition get_or :: "'a option \<Rightarrow> 'a \<Rightarrow> 'a" where
  "get_or v d = (case v of None \<Rightarrow> d | Some x \<Rightarrow> x)"

text \<open>\<open>xactimate_summary[k][0]\<close> under the guard \<open>k in xactimate_summary\<close>:
  \<open>None\<close> when the key is absent, IndexError when its list is empty.\<close>

definition first_block ::
  "(string \<times> measurements list) list \<Rightarrow> string \<Rightarrow> py_error + measurements option" where
  "first_block xs k =
     (case map_of xs k of
        None \<Rightarrow> Inr None
      | Some [] \<Rightarrow> Inl IndexError
      | Some (b # _) \<Rightarrow> Inr (Some b))"

definition roof_item :: "(num \<Rightarrow> string) \<Rightarrow> measurements \<Rightarrow> line_item" where
  "roof_item fmt roof_data =
     \<lparr>item_category = ''Roofing'',
      item_id = ''RFG-ASPH-RPL'',
      description = ''Replace '' @ get_or (material roof_data) ''asphalt'' @ '' roof'',
      quantity = get_or (area_sqft roof_data) 0,
      unit = ''SQFT'',
      unit_price = 9 / 2,
      line_total = get_or (area_sqft roof_data) 0 * (9 / 2),
      item_notes = ''Roof pitch: '' @ get_or (pitch roof_data) ''4/12'' @ '', '' @
              ''Damage: '' @ fmt (get_or (damage_percentage roof_data) (1 / 2) * 100) @ ''%''\<rparr>"

definition siding_item :: "(num \<Rightarrow> string) \<Rightarrow> measurements \<Rightarrow> line_item" where
  "siding_item fmt siding_data =
     \<lparr>item_category = ''Exterior'',
      item_id = ''EXT-SDNG-RPL'',
      description = ''Replace '' @ get_or (material siding_data) ''vinyl'' @ '' siding'',
      quantity = get_or (area_sqft siding_data) 0,
      unit = ''SQFT'',
      unit_price = 15 / 4,
      line_total = get_or (area_sqft siding_data) 0 * (15 / 4),
      item_notes = ''Damage: '' @ fmt (get_or (damage_percentage siding_data) (1 / 2) * 100) @ ''%''\<rparr>"

definition structural_item :: "string \<Rightarrow> string \<Rightarrow> line_item" where
  "structural_item sev component =
     \<lparr>item_category = ''Structural'',
      item_id = ''STR-'' @ upper component @ ''-RPR'',
      description = ''Repair '' @ sev @ '' '' @ component @ '' damage'',
      quantity = 1,
      unit = ''EA'',
      unit_price = 750,
      line_total = 750,
      item_notes = capitalize sev @ '' structural damage to '' @ component\<rparr>"

definition structural_items :: "measurements \<Rightarrow> line_item list" where
  "structural_items structural_data =
     (let components = get_or (affected_components structural_data) [];
          sev = get_or (structural_severity structural_data) ''moderate''
      in map (structural_item sev) components)"

definition water_item :: "(num \<Rightarrow> string) \<Rightarrow> measurements \<Rightarrow> line_item" where
  "water_item fmt water_data =
     (let cat = get_or (category water_data) 1 in
      \<lparr>item_category = ''Water Damage'',
       item_id = ''WTR-CAT'' @ fmt cat @ ''-MIT'',
       description = ''Category '' @ fmt cat @ '' water damage mitigation'',
       quantity = get_or (affected_area_sqft water_data) 0,
       unit = ''SQFT'',
       unit_price = (5 / 2) * cat,
       line_total = get_or (affected_area_sqft water_data) 0 * (5 / 2) * cat,
       item_notes = ''Water depth: '' @ fmt (get_or (depth_inches water_data) 0) @ '' inches''\<rparr>)"

definition debris_item :: "measurements \<Rightarrow> line_item" where
  "debris_item debris_data =
     \<lparr>item_category = ''Cleanup'',
      item_id = ''CLN-DBRS-RMV'',
      description = ''Remove '' @ get_or (debris_type debris_data) ''mixed'' @ '' debris'',
      quantity = get_or (volume_cubic_yards debris_data) 0,
      unit = ''CUYD'',
      unit_price = 45,
      line_total = get_or (volume_cubic_yards debris_data) 0 * 45,
      item_notes = ''Debris type: '' @ get_or (debris_type debris_data) ''mixed''\<rparr>"

text \<open>One category's contribution to \<open>line_items\<close>: nothing when the category is
  absent, the items of its first block otherwise.\<close>

definition items_for ::
  "(string \<times> measurements list) list \<Rightarrow> string \<Rightarrow> (measurements \<Rightarrow> line_item list)
     \<Rightarrow> py_error + line_item list" where
  "items_for xs k mk =
     (case first_block xs k of
        Inl e \<Rightarrow> Inl e
      | Inr None \<Rightarrow> Inr []
      | Inr (Some b) \<Rightarrow> Inr (mk b))"

text \<open>The five \<open>if k in xactimate_summary\<close> blocks, in the source's order.\<close>

definition build_line_items ::
  "(num \<Rightarrow> string) \<Rightarrow> (string \<times> measurements list) list \<Rightarrow> py_error + line_item list" where
  "build_line_items fmt xs =
     (case items_for xs ''roof'' (\<lambda>b. [roof_item fmt b]) of
        Inl e \<Rightarrow> Inl e
      | Inr r \<Rightarrow>
     (case items_for xs ''siding'' (\<lambda>b. [siding_item fmt b]) of
        Inl e \<Rightarrow> Inl e
      | Inr s \<Rightarrow>
     (case items_for xs ''structural'' structural_items of
        Inl e \<Rightarrow> Inl e
      | Inr st \<Rightarrow>
     (case items_for xs ''water'' (\<lambda>b. [water_item fmt b]) of
        Inl e \<Rightarrow> Inl e
      | Inr w \<Rightarrow>
     (case items_for xs ''debris'' (\<lambda>b. [debris_item b]) of
        Inl e \<Rightarrow> Inl e
      | Inr d \<Rightarrow> Inr (r @ s @ st @ w @ d))))))"

definition calc_totals :: "line_item list \<Rightarrow> totals" where
  "calc_totals items =
     (let sub = sum_list (map line_total items);
          rate = 7 / 100;
          tx = sub * rate
      in \<lparr>subtotal = sub, tax_rate = rate, tax = tx, total = sub + tx\<rparr>)"

definition the_property_info :: property_info where
  "the_property_info =
     \<lparr>address = ''123 Storm Damage St, Anytown, USA'', property_type = ''Residential'',
      year_built = 1985, square_footage = 2200\<rparr>"

text \<open>
  \<open>format_for_xactimate(job_data)\<close>. A falsy \<open>job_data\<close> returns \<open>None\<close>. The line
  items are built first, then the totals, then the claim dictionary, whose
  \<open>date_of_loss\<close> is \<open>datetime.now().replace(day=datetime.now().day - 3)\<close>.
\<close>

definition format_for_xactimate ::
  "(num \<Rightarrow> string) \<Rightarrow> string \<Rightarrow> datetime \<Rightarrow> job_data option \<Rightarrow> py_error + claim option" where
  "format_for_xactimate fmt uuid now jd_opt =
     (case jd_opt of
        None \<Rightarrow> Inr None
      | Some jd \<Rightarrow>
          (let summary = jd_summary jd;
               dsum = get_or (damage_summary summary) [];
               xsum = get_or (xactimate_summary summary) []
           in case build_line_items fmt xsum of
                Inl e \<Rightarrow> Inl e
              | Inr items \<Rightarrow>
                  (case replace_day now (day now - 3) of
                     Inl e \<Rightarrow> Inl e
                   | Inr loss \<Rightarrow>
                       Inr (Some
                         \<lparr>claim_id = uuid,
                          claim_job_id = jd_job_id jd,
                          claim_timestamp = now,
                          claim_property_info = the_property_info,
                          claim_damage_info =
                            \<lparr>event_type = ''Storm'',
                             date_of_loss = loss,
                             info_overall_severity =
                               get_or (summary_overall_severity summary) (1 / 2),
                             damage_types = map fst dsum\<rparr>,
                          line_items = items,
                          claim_totals = Some (calc_totals items),
                          contractor_id = None,
                          claim_status = ''Ready for Submission''\<rparr>))))"

section \<open>Files\<close>

text \<open>
  A directory of JSON files of one kind is an association list from the varying part of
  the file name (the job id of \<open>{job_id}_result.json\<close>) to the content; \<open>None\<close> is a
  file that cannot be read as the expected object. Writing a file replaces the entry of
  that name or adds one.
\<close>

type_synonym 'a dir = "(string \<times> 'a option) list"

definition write_file :: "string \<Rightarrow> 'a \<Rightarrow> 'a dir \<Rightarrow> 'a dir" where
  "write_file name content d = AList.update name (Some content) d"

definition file_exists :: "'a dir \<Rightarrow> string \<Rightarrow> bool" where
  "file_exists d name = (map_of d name \<noteq> None)"

text \<open>An optional string inside an f-string: \<open>None\<close> prints as the word None.\<close>

definition str_of :: "string option \<Rightarrow> string" where
  "str_of s = (case s of None \<Rightarrow> ''None'' | Some x \<Rightarrow> x)"

subsection \<open>Elapsed time\<close>

definition days_before_year :: "int \<Rightarrow> int" where
  "days_before_year y = (let y1 = y - 1 in y1 * 365 + y1 div 4 - y1 div 100 + y1 div 400)"

definition days_before_month :: "int \<Rightarrow> int \<Rightarrow> int" where
  "days_before_month y m = sum_list (map (days_in_month y) [1..m - 1])"

definition toordinal :: "datetime \<Rightarrow> int" where
  "toordinal dt =
     days_before_year (year dt) + days_before_month (year dt) (month dt) + day dt"

definition micros_per_day :: int where
  "micros_per_day = 86400000000"

text \<open>Microseconds since the start of day 0 of the proleptic Gregorian calendar.\<close>

definition micros :: "datetime \<Rightarrow> int" where
  "micros dt =
     (((toordinal dt * 24 + hour dt) * 60 + minute dt) * 60 + second dt) * 1000000
       + microsecond dt"

text \<open>\<open>(a - b).days\<close>: the whole days of a timedelta, rounded towards minus infinity.\<close>

definition timedelta_days :: "datetime \<Rightarrow> datetime \<Rightarrow> int" where
  "timedelta_days a b = (micros a - micros b) div micros_per_day"

section \<open>Submission tracker (xactimate\_integration.py)\<close>

record submission_result =
  success :: bool
  sr_claim_id :: "string option"
  sr_job_id :: "string option"
  xactimate_id :: "string option"
  submission_time :: datetime
  estimated_payout :: num
  status :: "string option"
  estimated_processing_days :: int
  payout_amount :: "num option"
  approval_date :: "datetime option"

text \<open>The claims directory: \<open>{job_id}_result.json\<close> and \<open>{job_id}_claim.json\<close>.\<close>

record claims_dir =
  result_files :: "submission_result dir"
  claim_files :: "claim dir"

text \<open>The three assignments under \<open>if days_since_submission >= ...\<close>.\<close>

definition approve :: "datetime \<Rightarrow> submission_result \<Rightarrow> submission_result" where
  "approve now result =
     result\<lparr>status := Some ''Approved'',
            payout_amount := Some (estimated_payout result),
            approval_date := Some now\<rparr>"

text \<open>
  Modelled from the spec: the end of \<open>check_submission_status\<close>. The source under src/
  stops inside the third assignment of the approval branch (line 440); what follows it
  (writing the result back, the return value, the handler of the \<open>try\<close>) is taken from
  the spec: the approved result is persisted and returned, below the threshold the result
  is returned as loaded and nothing is written, and a result file that cannot be read
  yields no result. The lookup of the file, the elapsed days, the threshold test and
  the three assignments are the source's.
\<close>

definition check_submission_status ::
  "datetime \<Rightarrow> claims_dir \<Rightarrow> string \<Rightarrow> submission_result option \<times> claims_dir" where
  "check_submission_status now cd jid =
     (case map_of (result_files cd) jid of
        None \<Rightarrow> (None, cd)
      | Some None \<Rightarrow> (None, cd)
      | Some (Some result) \<Rightarrow>
          (let days_since_submission = timedelta_days now (submission_time result)
           in if days_since_submission \<ge> estimated_processing_days result
              then (let result' = approve now result
                    in (Some result',
                        cd\<lparr>result_files := write_file jid result' (result_files cd)\<rparr>))
              else (Some result, cd)))"

section \<open>Payment calculator (payment\_processing.py)\<close>

record payment_record =
  payment_id :: string
  pr_job_id :: "string option"
  pr_claim_id :: "string option"
  pr_xactimate_id :: "string option"
  pr_contractor_id :: string
  payment_amount :: num
  total_claim_amount :: num
  payment_percentage :: num
  payment_date :: datetime
  payment_method :: string
  payment_status :: string
  payment_notes :: string

text \<open>A report's \<open>start_date\<close> and \<open>end_date\<close> are days, held as ordinals.\<close>

record payment_report =
  start_date :: int
  end_date :: int
  total_payments :: nat
  total_amount :: num
  report_total_claim_amount :: num
  average_payment :: num
  payment_records :: "payment_record list"

text \<open>
  What the payment processor sees: the claims directory (\<open>None\<close> when it does not
  exist) and its own output directory with \<open>{job_id}_payment.json\<close> and
  \<open>payment_report_{start}_to_{end}.json\<close>.
\<close>

record payment_store =
  claims :: "claims_dir option"
  payment_files :: "payment_record dir"
  report_files :: "((int \<times> int) \<times> payment_report) list"

record claim_info =
  ci_result :: submission_result
  ci_claim :: claim

text \<open>The body of the loop of \<open>get_approved_claims\<close> for one \<open>*_result.json\<close>: the
  entries it appends. A file that cannot be read, and a claim file that exists but cannot
  be read, raise inside the \<open>try\<close> and append nothing.\<close>

definition approved_entry ::
  "claims_dir \<Rightarrow> payment_record dir \<Rightarrow> submission_result option \<Rightarrow> claim_info list" where
  "approved_entry cd pays content =
     (case content of
        None \<Rightarrow> []
      | Some result \<Rightarrow>
          if status result = Some ''Approved'' then
            (let jid = str_of (sr_job_id result)
             in if \<not> file_exists pays jid then
                  (case map_of (claim_files cd) jid of
                     None \<Rightarrow> []
                   | Some None \<Rightarrow> []
                   | Some (Some claim_data) \<Rightarrow>
                       [\<lparr>ci_result = result, ci_claim = claim_data\<rparr>])
                else [])
          else [])"

definition get_approved_claims :: "payment_store \<Rightarrow> claim_info list" where
  "get_approved_claims st =
     (case claims st of
        None \<Rightarrow> []
      | Some cd \<Rightarrow>
          concat (map (\<lambda>(name, content). approved_entry cd (payment_files st) content)
                      (result_files cd)))"

text \<open>\<open>claim_data.get('totals', {}).get('total', 0)\<close>\<close>

definition claim_total :: "claim \<Rightarrow> num" where
  "claim_total claim_data =
     (case claim_totals claim_data of None \<Rightarrow> 0 | Some t \<Rightarrow> total t)"

definition calculate_contractor_payment :: "claim \<Rightarrow> num \<Rightarrow> num" where
  "calculate_contractor_payment claim_data pct =
     (let total_amount = claim_total claim_data in total_amount * pct)"

text \<open>
  \<open>process_payment(claim_info)\<close>, with the drawn payment id, the clock and whether
  the payment file can be written. A failed write returns \<open>None\<close>.
\<close>

definition process_payment ::
  "string \<Rightarrow> datetime \<Rightarrow> bool \<Rightarrow> payment_store \<Rightarrow> claim_info
     \<Rightarrow> payment_record option \<times> payment_store" where
  "process_payment uuid now can_write st info =
     (let result = ci_result info;
          claim_data = ci_claim info;
          jid = sr_job_id result;
          pay = calculate_contractor_payment claim_data (7 / 10);
          rec =
            \<lparr>payment_id = uuid,
             pr_job_id = jid,
             pr_claim_id = sr_claim_id result,
             pr_xactimate_id = xactimate_id result,
             pr_contractor_id = get_or (contractor_id claim_data) ''unknown'',
             payment_amount = pay,
             total_claim_amount = claim_total claim_data,
             payment_percentage = 7 / 10,
             payment_date = now,
             payment_method = ''Direct Deposit'',
             payment_status = ''Processed'',
             payment_notes = ''Payment for storm damage assessment and documentation''\<rparr>
      in if can_write
         then (Some rec, st\<lparr>payment_files := write_file (str_of jid) rec (payment_files st)\<rparr>)
         else (None, st))"

text \<open>The inputs of the \<open>i\<close>-th payment of a batch.\<close>

record pay_env =
  uuid_at :: "nat \<Rightarrow> string"
  clock_at :: "nat \<Rightarrow> datetime"
  writable_at :: "nat \<Rightarrow> bool"

fun pay_each ::
  "pay_env \<Rightarrow> nat \<Rightarrow> claim_info list \<Rightarrow> payment_store
     \<Rightarrow> payment_record list \<times> payment_store" where
  "pay_each env i [] st = ([], st)"
| "pay_each env i (info # infos) st =
     (case process_payment (uuid_at env i) (clock_at env i) (writable_at env i) st info of
        (None, st') \<Rightarrow> pay_each env (Suc i) infos st'
      | (Some rec, st') \<Rightarrow>
          (case pay_each env (Suc i) infos st' of (recs, st'') \<Rightarrow> (rec # recs, st'')))"

definition process_all_payments ::
  "pay_env \<Rightarrow> payment_store \<Rightarrow> payment_record list \<times> payment_store" where
  "process_all_payments env st =
     (let approved_claims = get_approved_claims st
      in if approved_claims = [] then ([], st) else pay_each env 0 approved_claims st)"

subsection \<open>Payment report\<close>

text \<open>A date argument of the report: not given (\<open>None\<close> or the empty string), a string
  that \<open>fromisoformat\<close> rejects, or a day, as its ordinal.\<close>

datatype date_arg = NotGiven | Malformed | Day int

text \<open>\<open>(now - timedelta(days=n))\<close> formatted as a date: the day of that instant.\<close>

definition day_of :: "int \<Rightarrow> int" where
  "day_of us = us div micros_per_day"

definition resolve_dates :: "datetime \<Rightarrow> date_arg \<Rightarrow> date_arg \<Rightarrow> py_error + int \<times> int" where
  "resolve_dates now start_arg end_arg =
     (let s = (case start_arg of NotGiven \<Rightarrow> Day (day_of (micros now - 30 * micros_per_day))
                               | a \<Rightarrow> a);
          e = (case end_arg of NotGiven \<Rightarrow> Day (day_of (micros now)) | a \<Rightarrow> a)
      in case (s, e) of
           (Day sd, Day ed) \<Rightarrow> Inr (sd, ed)
         | _ \<Rightarrow> Inl ValueError)"

text \<open>\<open>start_datetime <= payment_date <= end_datetime\<close>, the payment date cut at the
  seconds, the interval from 00:00:00 of the start day to 23:59:59 of the end day.\<close>

definition in_range :: "int \<Rightarrow> int \<Rightarrow> payment_record \<Rightarrow> bool" where
  "in_range sd ed rec =
     (let payment_us = micros ((payment_date rec)\<lparr>microsecond := 0\<rparr>)
      in sd * micros_per_day \<le> payment_us
         \<and> payment_us \<le> ed * micros_per_day + 86399 * 1000000)"

definition records_in_range :: "int \<Rightarrow> int \<Rightarrow> payment_record dir \<Rightarrow> payment_record list" where
  "records_in_range sd ed d =
     concat (map (\<lambda>(name, content).
                    case content of
                      None \<Rightarrow> []
                    | Some rec \<Rightarrow> if in_range sd ed rec then [rec] else [])
                 d)"

definition py_div :: "num \<Rightarrow> num \<Rightarrow> py_error + num" where
  "py_div a b = (if b = 0 then Inl ZeroDivisionError else Inr (a / b))"

definition generate_payment_report ::
  "datetime \<Rightarrow> bool \<Rightarrow> payment_store \<Rightarrow> date_arg \<Rightarrow> date_arg
     \<Rightarrow> py_error + payment_report \<times> payment_store" where
  "generate_payment_report now can_write st start_arg end_arg =
     (case resolve_dates now start_arg end_arg of
        Inl e \<Rightarrow> Inl e
      | Inr (sd, ed) \<Rightarrow>
          (let recs = records_in_range sd ed (payment_files st);
               n = length recs;
               amount = sum_list (map payment_amount recs);
               claimed = sum_list (map total_claim_amount recs)
           in case (if n > 0 then py_div amount (of_nat n) else Inr 0) of
                Inl e \<Rightarrow> Inl e
              | Inr avg \<Rightarrow>
                  (let report =
                         \<lparr>start_date = sd, end_date = ed, total_payments = n,
                          total_amount = amount, report_total_claim_amount = claimed,
                          average_payment = avg, payment_records = recs\<rparr>
                   in Inr (report,
                           if can_write
                           then st\<lparr>report_files :=
                                     AList.update (sd, ed) report (report_files st)\<rparr>
                           else st))))"

section \<open>Damage assessor and job aggregator (damage\_assessment.py)\<close>

text \<open>A JSON value read where a string is expected: \<open>JNull\<close> is \<open>null\<close>.\<close>

datatype json_str = JNull | JStr string

text \<open>
  A photo's metadata file, as far as the assessor reads and writes it. The upload
  endpoint stores \<open>damage_type\<close> as the form field's value, which is \<open>null\<close> when the
  form has none.
\<close>

record metadata =
  md_photo_id :: "string option"
  md_job_id :: "string option"
  damage_type :: "json_str option"
  processing_status :: "string option"
  md_assessment_id :: "string option"
  assessment_timestamp :: "datetime option"
  md_overall_severity :: "num option"
  md_overall_confidence :: "num option"
  detected_damage_types :: "string list option"

record photo_info =
  pi_photo_id :: string
  pi_job_id :: string
  metadata_path :: string
  photo_path :: string
  pi_metadata :: metadata

text \<open>A \<open>.json\<close> file of a job's report directory: an assessment or the job summary.\<close>

datatype report_file = AssessmentFile assessment | SummaryFile job_summary

text \<open>
  What the assessor sees: \<open>data_dir/metadata\<close> (\<open>None\<close> when it does not exist), the
  file names of each \<open>data_dir/{job_id}\<close>, and each \<open>output_dir/{job_id}\<close>.
\<close>

record photo_store =
  metadata_dir :: "metadata dir option"
  job_dirs :: "(string \<times> string list) list"
  report_dirs :: "(string \<times> report_file dir) list"

subsection \<open>Pending photos\<close>








subsection \<open>Assessing a photo\<close>

definition known_damage_types :: "string list" where
  "known_damage_types = [''roof'', ''siding'', ''structural'', ''water'', ''debris'']"

text \<open>
  The draws of one call of \<open>analyze_photo\<close>. \<open>picks\<close> are the values of
  \<open>random.choice(damage_types)\<close> in the loop \<open>for _ in range(random.randint(1, 3))\<close>,
  so its length is the value of \<open>randint\<close>. The three \<open>uniform\<close> draws of a category and
  the draws of the measurement blocks follow.
\<close>

record draws =
  picks :: "string list"
  severity_draw :: "string \<Rightarrow> num"
  confidence_draw :: "string \<Rightarrow> num"
  area_draw :: "string \<Rightarrow> num"
  roof_area :: num
  roof_pitch :: num
  roof_material :: string
  roof_damage :: num
  siding_area :: num
  siding_material :: string
  siding_damage :: num
  structural_components :: "string list"
  structural_tier :: string
  water_area :: num
  water_depth :: num
  water_category :: num
  debris_volume :: num
  debris_kind :: string

definition valid_picks :: "draws \<Rightarrow> bool" where
  "valid_picks dr =
     (1 \<le> length (picks dr) \<and> length (picks dr) \<le> 3
      \<and> list_all (\<lambda>d. d \<in> set known_damage_types) (picks dr))"

text \<open>Whether \<open>os.makedirs\<close> and the two \<open>open(..., 'w')\<close> of a call succeed.\<close>

record assess_io =
  can_mkdir :: bool
  can_save :: bool
  can_update :: bool

text \<open>The loop that adds the picks not yet in the working list.\<close>

fun add_picks :: "string list \<Rightarrow> string list \<Rightarrow> string list" where
  "add_picks detected [] = detected"
| "add_picks detected (d # ds) =
     add_picks (if d \<notin> set detected then detected @ [d] else detected) ds"

text \<open>\<open>metadata.get('damage_type', 'Unknown').lower()\<close>: AttributeError on \<open>null\<close>.\<close>

definition reported_lower :: "metadata \<Rightarrow> py_error + string" where
  "reported_lower md =
     (case get_or (damage_type md) (JStr ''Unknown'') of
        JNull \<Rightarrow> Inl AttributeError
      | JStr s \<Rightarrow> Inr (lower s))"

definition detect_damages :: "string \<Rightarrow> string list \<Rightarrow> string list" where
  "detect_damages reported ps =
     add_picks (if reported \<in> set known_damage_types then [reported] else []) ps"

text \<open>\<open>round(x, 2)\<close>: to the nearest multiple of 0.01, a tie to the even one.\<close>

definition round_half_even :: "rat \<Rightarrow> int" where
  "round_half_even x =
     (let f = \<lfloor>x\<rfloor>; r = x - of_int f
      in if r < 1 / 2 then f else if 1 / 2 < r then f + 1 else if even f then f else f + 1)"

definition py_round2 :: "num \<Rightarrow> num" where
  "py_round2 x = of_int (round_half_even (x * 100)) / 100"

definition block_for :: "(num \<Rightarrow> string) \<Rightarrow> draws \<Rightarrow> string \<Rightarrow> measurements option" where
  "block_for fmt dr d =
     (if d = ''roof'' then
        Some (no_measurements
               \<lparr>area_sqft := Some (roof_area dr),
                pitch := Some (fmt (roof_pitch dr) @ ''/12''),
                material := Some (roof_material dr),
                damage_percentage := Some (py_round2 (roof_damage dr))\<rparr>)
      else if d = ''siding'' then
        Some (no_measurements
               \<lparr>area_sqft := Some (siding_area dr),
                material := Some (siding_material dr),
                damage_percentage := Some (py_round2 (siding_damage dr))\<rparr>)
      else if d = ''structural'' then
        Some (no_measurements
               \<lparr>affected_components := Some (structural_components dr),
                structural_severity := Some (structural_tier dr)\<rparr>)
      else if d = ''water'' then
        Some (no_measurements
               \<lparr>affected_area_sqft := Some (water_area dr),
                depth_inches := Some (water_depth dr),
                category := Some (water_category dr)\<rparr>)
      else if d = ''debris'' then
        Some (no_measurements
               \<lparr>volume_cubic_yards := Some (debris_volume dr),
                debris_type := Some (debris_kind dr)\<rparr>)
      else None)"

text \<open>\<open>sum(xs) / len(xs)\<close>\<close>

definition mean :: "num list \<Rightarrow> py_error + num" where
  "mean xs = py_div (sum_list xs) (of_nat (length xs))"

definition and_then :: "py_error + 'a \<Rightarrow> ('a \<Rightarrow> py_error + 'b) \<Rightarrow> py_error + 'b" where
  "and_then r f = (case r of Inl e \<Rightarrow> Inl e | Inr x \<Rightarrow> f x)"

text \<open>\<open>_save_assessment\<close>: \<open>makedirs\<close> may raise; a failed write is logged only.\<close>

definition save_assessment :: "assess_io \<Rightarrow> photo_store \<Rightarrow> assessment \<Rightarrow> py_error + photo_store" where
  "save_assessment io st a =
     (if \<not> can_mkdir io then Inl OSError
      else
        (let files = get_or (map_of (report_dirs st) (job_id a)) [];
             files' = (if can_save io
                       then write_file (assessment_id a) (AssessmentFile a) files
                       else files)
         in Inr (st\<lparr>report_dirs := AList.update (job_id a) files' (report_dirs st)\<rparr>)))"

text \<open>\<open>_update_metadata\<close>: a failed write is logged only.\<close>

definition update_metadata :: "assess_io \<Rightarrow> photo_store \<Rightarrow> photo_info \<Rightarrow> assessment \<Rightarrow> photo_store" where
  "update_metadata io st info a =
     (let md = (pi_metadata info)
                 \<lparr>processing_status := Some ''completed'',
                  md_assessment_id := Some (assessment_id a),
                  assessment_timestamp := Some (timestamp a),
                  md_overall_severity := Some (overall_severity a),
                  md_overall_confidence := Some (overall_confidence a),
                  detected_damage_types := Some (map fst (damage_assessment a))\<rparr>
      in case metadata_dir st of
           None \<Rightarrow> st
         | Some files \<Rightarrow>
             if can_update io
             then st\<lparr>metadata_dir := Some (write_file (metadata_path info) md files)\<rparr>
             else st)"

definition analyze_photo ::
  "(num \<Rightarrow> string) \<Rightarrow> assess_io \<Rightarrow> string \<Rightarrow> datetime \<Rightarrow> draws \<Rightarrow> photo_store \<Rightarrow> photo_info
     \<Rightarrow> py_error + assessment \<times> photo_store" where
  "analyze_photo fmt io uuid now dr st info =
     and_then (reported_lower (pi_metadata info)) (\<lambda>reported.
       let detected_damages = detect_damages reported (picks dr);
           assessed =
             map (\<lambda>d. (d, \<lparr>severity = Some (severity_draw dr d),
                            confidence = Some (confidence_draw dr d),
                            area_percentage = Some (area_draw dr d)\<rparr>))
                 detected_damages;
           measured =
             List.map_filter (\<lambda>d. map_option (\<lambda>b. (d, b)) (block_for fmt dr d))
               detected_damages
       in and_then (mean (map (severity_draw dr) detected_damages)) (\<lambda>sev.
          and_then (mean (map (confidence_draw dr) detected_damages)) (\<lambda>conf.
            let results =
                  \<lparr>photo_id = pi_photo_id info,
                   job_id = pi_job_id info,
                   assessment_id = uuid,
                   timestamp = now,
                   damage_assessment = assessed,
                   xactimate_measurements = measured,
                   overall_severity = py_round2 sev,
                   overall_confidence = py_round2 conf\<rparr>
            in and_then (save_assessment io st results) (\<lambda>st1.
                 Inr (results, update_metadata io st1 info results)))))"

subsection \<open>Job summary\<close>

text \<open>A report file read as an assessment: the keys \<open>generate_job_summary\<close> reads.\<close>

definition damage_assessment_of :: "report_file \<Rightarrow> (string \<times> damage_details) list" where
  "damage_assessment_of f =
     (case f of AssessmentFile a \<Rightarrow> damage_assessment a | SummaryFile s \<Rightarrow> [])"

definition measurements_of :: "report_file \<Rightarrow> (string \<times> measurements) list" where
  "measurements_of f =
     (case f of AssessmentFile a \<Rightarrow> xactimate_measurements a | SummaryFile s \<Rightarrow> [])"

definition overall_severity_of :: "report_file \<Rightarrow> num option" where
  "overall_severity_of f =
     (case f of AssessmentFile a \<Rightarrow> Some (overall_severity a)
              | SummaryFile s \<Rightarrow> summary_overall_severity s)"

definition overall_confidence_of :: "report_file \<Rightarrow> num option" where
  "overall_confidence_of f =
     (case f of AssessmentFile a \<Rightarrow> Some (overall_confidence a)
              | SummaryFile s \<Rightarrow> summary_overall_confidence s)"

definition get_job_assessments :: "photo_store \<Rightarrow> string \<Rightarrow> report_file list" where
  "get_job_assessments st jid =
     (case map_of (report_dirs st) jid of
        None \<Rightarrow> []
      | Some files \<Rightarrow> List.map_filter snd files)"

text \<open>\<open>if k not in d: d[k] = []\<close> followed by \<open>d[k].append(v)\<close>\<close>

definition append_at :: "string \<Rightarrow> 'a \<Rightarrow> (string \<times> 'a list) list \<Rightarrow> (string \<times> 'a list) list" where
  "append_at k v d =
     (case map_of d k of
        None \<Rightarrow> d @ [(k, [v])]
      | Some vs \<Rightarrow> AList.update k (vs @ [v]) d)"

definition group_by_key :: "(string \<times> 'a) list \<Rightarrow> (string \<times> 'a list) list" where
  "group_by_key kvs = fold (\<lambda>(k, v). append_at k v) kvs []"

text \<open>\<open>[d[k] for d in ds]\<close>: KeyError at the first entry without the key.\<close>

fun require_all :: "'a option list \<Rightarrow> py_error + 'a list" where
  "require_all [] = Inr []"
| "require_all (None # xs) = Inl KeyError"
| "require_all (Some x # xs) = and_then (require_all xs) (\<lambda>ys. Inr (x # ys))"

definition average_details :: "damage_details list \<Rightarrow> py_error + damage_average" where
  "average_details details_list =
     and_then (require_all (map severity details_list)) (\<lambda>sevs.
     and_then (mean sevs) (\<lambda>avg_sev.
     and_then (require_all (map confidence details_list)) (\<lambda>confs.
     and_then (mean confs) (\<lambda>avg_conf.
     and_then (mean (map (\<lambda>d. get_or (area_percentage d) 0) details_list)) (\<lambda>avg_area.
       Inr \<lparr>avg_severity = py_round2 avg_sev,
            avg_confidence = py_round2 avg_conf,
            avg_area_percentage = py_round2 avg_area,
            photo_count = length details_list\<rparr>)))))"

fun average_all ::
  "(string \<times> damage_details list) list \<Rightarrow> py_error + (string \<times> damage_average) list" where
  "average_all [] = Inr []"
| "average_all ((k, ds) # rest) =
     and_then (average_details ds) (\<lambda>avg.
     and_then (average_all rest) (\<lambda>avgs. Inr ((k, avg) # avgs)))"

definition generate_job_summary ::
  "datetime \<Rightarrow> bool \<Rightarrow> photo_store \<Rightarrow> string \<Rightarrow> py_error + job_summary option \<times> photo_store" where
  "generate_job_summary now can_write st jid =
     (let assessments = get_job_assessments st jid
      in if assessments = [] then Inr (None, st)
         else
           (let damage_types = group_by_key (concat (map damage_assessment_of assessments));
                xsummary = group_by_key (concat (map measurements_of assessments))
            in and_then (average_all damage_types) (\<lambda>dsummary.
               and_then (require_all (map overall_severity_of assessments)) (\<lambda>sevs.
               and_then (mean sevs) (\<lambda>sev.
               and_then (require_all (map overall_confidence_of assessments)) (\<lambda>confs.
               and_then (mean confs) (\<lambda>conf.
                 let summary =
                       \<lparr>summary_job_id = jid,
                        assessment_count = length assessments,
                        summary_timestamp = now,
                        damage_summary = Some dsummary,
                        xactimate_summary = Some xsummary,
                        summary_overall_severity = Some (py_round2 sev),
                        summary_overall_confidence = Some (py_round2 conf),
                        xactimate_ready = Some True\<rparr>;
                     files = get_or (map_of (report_dirs st) jid) []
                 in Inr (Some summary,
                         if can_write
                         then st\<lparr>report_dirs :=
                                   AList.update jid
                                     (write_file ''job_summary'' (SummaryFile summary) files)
                                     (report_dirs st)\<rparr>
                         else st))))))))"

text \<open>A report file with the keys that \<open>generate_job_summary\<close> reads by subscript.\<close>

definition complete_details :: "damage_details \<Rightarrow> bool" where
  "complete_details d = (severity d \<noteq> None \<and> confidence d \<noteq> None)"

definition complete_file :: "report_file \<Rightarrow> bool" where
  "complete_file f =
     (overall_severity_of f \<noteq> None \<and> overall_confidence_of f \<noteq> None
      \<and> list_all (\<lambda>kd. complete_details (snd kd)) (damage_assessment_of f))"

section \<open>Scenarios\<close>

definition at_date :: "int \<Rightarrow> int \<Rightarrow> int \<Rightarrow> datetime" where
  "at_date y m d =
     \<lparr>year = y, month = m, day = d, hour = 10, minute = 30, second = 0, microsecond = 0\<rparr>"

text \<open>A job whose summary holds one roof block of 1,000 sq ft and nothing else.\<close>

definition roof_only_job :: job_data where
  "roof_only_job =
     \<lparr>jd_job_id = ''JOB-1'',
      jd_summary =
        \<lparr>summary_job_id = ''JOB-1'', assessment_count = 1,
         summary_timestamp = at_date 2025 2 27,
         damage_summary = Some [],
         xactimate_summary = Some [(''roof'', [no_measurements\<lparr>area_sqft := Some 1000\<rparr>])],
         summary_overall_severity = Some (1 / 2),
         summary_overall_confidence = Some (9 / 10),
         xactimate_ready = Some True\<rparr>,
      jd_assessments = []\<rparr>"

text \<open>A job whose summary holds one water block: category 3, 200 sq ft.\<close>

definition water_only_job :: job_data where
  "water_only_job =
     \<lparr>jd_job_id = ''JOB-2'',
      jd_summary =
        \<lparr>summary_job_id = ''JOB-2'', assessment_count = 1,
         summary_timestamp = at_date 2025 2 27,
         damage_summary = Some [],
         xactimate_summary =
           Some [(''water'',
                  [no_measurements\<lparr>affected_area_sqft := Some 200, category := Some 3\<rparr>])],
         summary_overall_severity = Some (1 / 2),
         summary_overall_confidence = Some (9 / 10),
         xactimate_ready = Some True\<rparr>,
      jd_assessments = []\<rparr>"

text \<open>The claim of the roof-only job, its submission on 1 March 2025 with five
  estimated processing days, and the stores that hold them.\<close>

definition roof_claim :: claim where
  "roof_claim =
     \<lparr>claim_id = ''claim-1'',
      claim_job_id = ''JOB-1'',
      claim_timestamp = at_date 2025 2 27,
      claim_property_info = the_property_info,
      claim_damage_info =
        \<lparr>event_type = ''Storm'', date_of_loss = at_date 2025 2 24,
         info_overall_severity = 1 / 2, damage_types = []\<rparr>,
      line_items = [roof_item (\<lambda>n. ''50'') (no_measurements\<lparr>area_sqft := Some 1000\<rparr>)],
      claim_totals = Some \<lparr>subtotal = 4500, tax_rate = 7 / 100, tax = 315, total = 4815\<rparr>,
      contractor_id = None,
      claim_status = ''Ready for Submission''\<rparr>"

definition roof_submission :: submission_result where
  "roof_submission =
     \<lparr>success = True,
      sr_claim_id = Some ''claim-1'',
      sr_job_id = Some ''JOB-1'',
      xactimate_id = Some ''XM-12345'',
      submission_time = at_date 2025 3 1,
      estimated_payout = 4815,
      status = Some ''Submitted'',
      estimated_processing_days = 5,
      payout_amount = None,
      approval_date = None\<rparr>"

definition submitted_dir :: claims_dir where
  "submitted_dir =
     \<lparr>result_files = [(''JOB-1'', Some roof_submission)],
      claim_files = [(''JOB-1'', Some roof_claim)]\<rparr>"

definition approved_store :: payment_store where
  "approved_store =
     \<lparr>claims =
        Some \<lparr>result_files = [(''JOB-1'', Some (approve (at_date 2025 3 6) roof_submission))],
              claim_files = [(''JOB-1'', Some roof_claim)]\<rparr>,
      payment_files = [],
      report_files = []\<rparr>"

definition roof_info :: claim_info where
  "roof_info =
     \<lparr>ci_result = approve (at_date 2025 3 6) roof_submission, ci_claim = roof_claim\<rparr>"

definition pay_env_1 :: pay_env where
  "pay_env_1 =
     \<lparr>uuid_at = (\<lambda>i. ''pay-1''), clock_at = (\<lambda>i. at_date 2025 3 7),
      writable_at = (\<lambda>i. True)\<rparr>"

definition pay_env_2 :: pay_env where
  "pay_env_2 =
     \<lparr>uuid_at = (\<lambda>i. ''pay-2''), clock_at = (\<lambda>i. at_date 2025 3 8),
      writable_at = (\<lambda>i. True)\<rparr>"

text \<open>The store after the roof-only job was paid on 7 March 2025.\<close>

definition roof_payment :: payment_record where
  "roof_payment =
     \<lparr>payment_id = ''pay-1'', pr_job_id = Some ''JOB-1'', pr_claim_id = Some ''claim-1'',
      pr_xactimate_id = Some ''XM-12345'', pr_contractor_id = ''unknown'',
      payment_amount = 6741 / 2, total_claim_amount = 4815, payment_percentage = 7 / 10,
      payment_date = at_date 2025 3 7, payment_method = ''Direct Deposit'',
      payment_status = ''Processed'',
      payment_notes = ''Payment for storm damage assessment and documentation''\<rparr>"

definition paid_store :: payment_store where
  "paid_store = approved_store\<lparr>payment_files := [(''JOB-1'', Some roof_payment)]\<rparr>"

text \<open>A photo of job JOB-1 as the upload endpoint stores it, with the hint given,
  with no hint in the form (\<open>null\<close>), and with a status other than pending or
  completed; the stores that hold it; the draws of one assessment.\<close>

definition roof_md :: metadata where
  "roof_md =
     \<lparr>md_photo_id = Some ''ph-1'', md_job_id = Some ''JOB-1'',
      damage_type = Some (JStr ''Roof''), processing_status = None,
      md_assessment_id = None, assessment_timestamp = None, md_overall_severity = None,
      md_overall_confidence = None, detected_damage_types = None\<rparr>"

definition roof_photo :: photo_info where
  "roof_photo =
     \<lparr>pi_photo_id = ''ph-1'', pi_job_id = ''JOB-1'', metadata_path = ''ph-1'',
      photo_path = ''JOB-1/ph-1.jpg'', pi_metadata = roof_md\<rparr>"

definition null_hint_photo :: photo_info where
  "null_hint_photo = roof_photo\<lparr>pi_metadata := roof_md\<lparr>damage_type := Some JNull\<rparr>\<rparr>"

definition upload_store :: photo_store where
  "upload_store =
     \<lparr>metadata_dir = Some [(''ph-1'', Some roof_md)],
      job_dirs = [(''JOB-1'', [''ph-1.jpg''])],
      report_dirs = []\<rparr>"





text \<open>The assessment of the roof photo under \<open>roof_draws\<close>, and the store after it.\<close>

definition roof_assessment :: assessment where
  "roof_assessment =
     \<lparr>photo_id = ''ph-1'', job_id = ''JOB-1'', assessment_id = ''a-1'',
      timestamp = at_date 2025 2 26,
      damage_assessment =
        [(''roof'', \<lparr>severity = Some (333 / 1000), confidence = Some (9 / 10),
                     area_percentage = Some (1 / 4)\<rparr>),
         (''water'', \<lparr>severity = Some (1 / 2), confidence = Some (72 / 100),
                      area_percentage = Some (1 / 4)\<rparr>)],
      xactimate_measurements =
        [(''roof'', no_measurements
                     \<lparr>area_sqft := Some 1000, pitch := Some ''6/12'',
                      material := Some ''metal'', damage_percentage := Some (1 / 2)\<rparr>),
         (''water'', no_measurements
                      \<lparr>affected_area_sqft := Some 200, depth_inches := Some 2,
                       category := Some 3\<rparr>)],
      overall_severity = 21 / 50,
      overall_confidence = 81 / 100\<rparr>"

definition assessed_store :: photo_store where
  "assessed_store =
     \<lparr>metadata_dir =
        Some [(''ph-1'',
               Some (roof_md\<lparr>processing_status := Some ''completed'',
                             md_assessment_id := Some ''a-1'',
                             assessment_timestamp := Some (at_date 2025 2 26),
                             md_overall_severity := Some (21 / 50),
                             md_overall_confidence := Some (81 / 100),
                             detected_damage_types := Some [''roof'', ''water'']\<rparr>))],
      job_dirs = [(''JOB-1'', [''ph-1.jpg''])],
      report_dirs = [(''JOB-1'', [(''a-1'', Some (AssessmentFile roof_assessment))])]\<rparr>"

section \<open>Properties of the claim formatter\<close>

lemma items_for_absent: "map_of xs k = None \<Longrightarrow> items_for xs k mk = Inr []"
  by (simp add: items_for_def first_block_def)

lemma items_for_present: "map_of xs k = Some (b # bs) \<Longrightarrow> items_for xs k mk = Inr (mk b)"
  by (simp add: items_for_def first_block_def)

lemma items_for_cases:
  "items_for xs k mk = Inr ys \<Longrightarrow>
     (map_of xs k = None \<and> ys = []) \<or> (\<exists>b bs. map_of xs k = Some (b # bs) \<and> ys = mk b)"
  by (auto simp: items_for_def first_block_def split: option.splits list.splits)

lemma replace_day_ok:
  "4 \<le> day now \<Longrightarrow> day now \<le> days_in_month (year now) (month now) \<Longrightarrow>
     replace_day now (day now - 3) = Inr (now\<lparr>day := day now - 3\<rparr>)"
  by (simp add: replace_day_def)

lemma replace_day_early: "day now \<le> 3 \<Longrightarrow> replace_day now (day now - 3) = Inl ValueError"
  by (simp add: replace_day_def)

text \<open>
  The pricing of a roof-only summary on a day of the month from the 4th on: one line
  item of 1000 sq ft at 4.50, subtotal 4500, tax 315, total 4815.
\<close>

lemma format_roof_only_from_day_4:
  assumes day: "4 \<le> day now" "day now \<le> days_in_month (year now) (month now)"
    and xs: "xactimate_summary (jd_summary jd) = Some xs"
    and roof: "map_of xs ''roof'' = Some (b # bs)" "area_sqft b = Some 1000"
    and rest: "map_of xs ''siding'' = None" "map_of xs ''structural'' = None"
      "map_of xs ''water'' = None" "map_of xs ''debris'' = None"
  shows "\<exists>c it. format_for_xactimate fmt uuid now (Some jd) = Inr (Some c)
           \<and> line_items c = [it]
           \<and> quantity it = 1000 \<and> unit_price it = 9 / 2 \<and> line_total it = 4500
           \<and> claim_totals c =
               Some \<lparr>subtotal = 4500, tax_rate = 7 / 100, tax = 315, total = 4815\<rparr>"
proof -
  have items: "build_line_items fmt xs = Inr [roof_item fmt b]"
    by (simp add: build_line_items_def items_for_absent [OF rest(1)]
        items_for_absent [OF rest(2)] items_for_absent [OF rest(3)]
        items_for_absent [OF rest(4)] items_for_present [OF roof(1)])
  have price: "quantity (roof_item fmt b) = 1000" "unit_price (roof_item fmt b) = 9 / 2"
    "line_total (roof_item fmt b) = 4500"
    by (simp_all add: roof_item_def get_or_def roof(2))
  have tot: "calc_totals [roof_item fmt b] =
      \<lparr>subtotal = 4500, tax_rate = 7 / 100, tax = 315, total = 4815\<rparr>"
    by (simp add: calc_totals_def price Let_def)
  show ?thesis
    by (simp add: format_for_xactimate_def xs get_or_def items replace_day_ok [OF day]
        price tot Let_def)
qed

text \<open>On the first three days of a month no job is formatted.\<close>

lemma format_fails_before_day_4:
  "day now \<le> 3 \<Longrightarrow> \<exists>e. format_for_xactimate fmt uuid now (Some jd) = Inl e"
  by (cases "build_line_items fmt (get_or (xactimate_summary (jd_summary jd)) [])")
     (simp_all add: format_for_xactimate_def replace_day_early Let_def)

text \<open>
  C1. On the first three days of a month \<open>datetime.now().day - 3\<close> is not a day of the
  month, \<open>replace\<close> raises ValueError and no claim is produced for the roof-only job of
  1,000 sq ft; the same job on the 14th yields the expected claim
  (\<open>format_roof_only_from_day_4\<close>).
\<close>

theorem format_roof_only_fails_early_in_month:
  "format_for_xactimate fmt uuid (at_date 2025 3 2) (Some roof_only_job) = Inl ValueError"
  by (simp add: format_for_xactimate_def roof_only_job_def build_line_items_def
      items_for_def first_block_def get_or_def replace_day_def at_date_def)

text \<open>
  C8. Whenever the formatter returns a claim for a summary with a water category, the
  claim has exactly one water line item, built from the first water block: its quantity is
  the affected area, its unit price is 2.50 times the block's category, and its line total
  is the quantity times the unit price. For category 3 and 200 sq ft this is 7.50 and
  1500.
\<close>

theorem water_item_price:
  assumes fmt: "format_for_xactimate fmt uuid now (Some jd) = Inr (Some c)"
    and xs: "xactimate_summary (jd_summary jd) = Some xs"
    and water: "map_of xs ''water'' = Some (b # bs)"
  shows "\<exists>it. filter (\<lambda>i. item_category i = ''Water Damage'') (line_items c) = [it]
           \<and> quantity it = get_or (affected_area_sqft b) 0
           \<and> unit_price it = (5 / 2) * get_or (category b) 1
           \<and> line_total it = quantity it * unit_price it
           \<and> (category b = Some 3 \<and> affected_area_sqft b = Some 200
                \<longrightarrow> unit_price it = 15 / 2 \<and> line_total it = 1500)"
proof -
  from fmt xs obtain items where items: "build_line_items fmt xs = Inr items"
    and c: "line_items c = items"
    by (auto simp: format_for_xactimate_def get_or_def Let_def split: sum.splits)
  from items obtain r s st w d where
    r: "items_for xs ''roof'' (\<lambda>b. [roof_item fmt b]) = Inr r"
    and s: "items_for xs ''siding'' (\<lambda>b. [siding_item fmt b]) = Inr s"
    and st: "items_for xs ''structural'' structural_items = Inr st"
    and w: "items_for xs ''water'' (\<lambda>b. [water_item fmt b]) = Inr w"
    and d: "items_for xs ''debris'' (\<lambda>b. [debris_item b]) = Inr d"
    and all: "items = r @ s @ st @ w @ d"
    by (auto simp: build_line_items_def split: sum.splits)
  have fr: "filter (\<lambda>i. item_category i = ''Water Damage'') r = []"
    using items_for_cases [OF r] by (auto simp: roof_item_def)
  have fs: "filter (\<lambda>i. item_category i = ''Water Damage'') s = []"
    using items_for_cases [OF s] by (auto simp: siding_item_def)
  have fst: "filter (\<lambda>i. item_category i = ''Water Damage'') st = []"
    using items_for_cases [OF st]
    by (auto simp: structural_items_def structural_item_def Let_def filter_empty_conv)
  have fd: "filter (\<lambda>i. item_category i = ''Water Damage'') d = []"
    using items_for_cases [OF d] by (auto simp: debris_item_def)
  have fw: "w = [water_item fmt b]"
    using w items_for_present [OF water, of "\<lambda>b. [water_item fmt b]"] by simp
  have "filter (\<lambda>i. item_category i = ''Water Damage'') (line_items c) = [water_item fmt b]"
    by (simp add: c all fr fs fst fd fw) (simp add: water_item_def Let_def)
  moreover have "quantity (water_item fmt b) = get_or (affected_area_sqft b) 0"
    "unit_price (water_item fmt b) = (5 / 2) * get_or (category b) 1"
    "line_total (water_item fmt b) = quantity (water_item fmt b) * unit_price (water_item fmt b)"
    by (simp_all add: water_item_def Let_def)
  moreover have "category b = Some 3 \<and> affected_area_sqft b = Some 200
      \<longrightarrow> unit_price (water_item fmt b) = 15 / 2 \<and> line_total (water_item fmt b) = 1500"
    by (simp add: water_item_def Let_def get_or_def)
  ultimately show ?thesis by blast
qed

theorem water_item_price_witness:
  "\<exists>c it. format_for_xactimate (\<lambda>_. ''3'') ''c-1'' (at_date 2025 3 14) (Some water_only_job)
             = Inr (Some c)
     \<and> filter (\<lambda>i. item_category i = ''Water Damage'') (line_items c) = [it]
     \<and> quantity it = 200 \<and> unit_price it = 15 / 2 \<and> line_total it = 1500"
proof -
  let ?now = "at_date 2025 3 14"
  let ?b = "no_measurements\<lparr>affected_area_sqft := Some 200, category := Some 3\<rparr>"
  let ?xs = "[(''water'', [?b])]"
  obtain c where c: "format_for_xactimate (\<lambda>_. ''3'') ''c-1'' ?now (Some water_only_job)
      = Inr (Some c)"
    by (simp add: format_for_xactimate_def water_only_job_def build_line_items_def
        items_for_def first_block_def get_or_def replace_day_def at_date_def
        days_in_month_def)
  have xs: "xactimate_summary (jd_summary water_only_job) = Some ?xs"
    by (simp add: water_only_job_def)
  have water: "map_of ?xs ''water'' = Some (?b # [])" by simp
  from water_item_price [OF c xs water] obtain it where
    "filter (\<lambda>i. item_category i = ''Water Damage'') (line_items c) = [it]"
    "quantity it = get_or (affected_area_sqft ?b) 0"
    "category ?b = Some 3 \<and> affected_area_sqft ?b = Some 200
       \<longrightarrow> unit_price it = 15 / 2 \<and> line_total it = 1500"
    by blast
  then have "filter (\<lambda>i. item_category i = ''Water Damage'') (line_items c) = [it]
      \<and> quantity it = 200 \<and> unit_price it = 15 / 2 \<and> line_total it = 1500"
    by (simp add: get_or_def no_measurements_def)
  with c show ?thesis by blast
qed

section \<open>Properties of the submission tracker\<close>

lemma days_4_march: "timedelta_days (at_date 2025 3 4) (at_date 2025 3 1) = 3"
  by (simp add: timedelta_days_def micros_def toordinal_def days_before_year_def
      days_before_month_def days_in_month_def is_leap_def at_date_def micros_per_day_def)

lemma days_6_march: "timedelta_days (at_date 2025 3 6) (at_date 2025 3 1) = 5"
  by (simp add: timedelta_days_def micros_def toordinal_def days_before_year_def
      days_before_month_def days_in_month_def is_leap_def at_date_def micros_per_day_def)

text \<open>
  C2. For a persisted result with status Submitted, \<open>check_submission_status\<close> returns
  a result whose status is Approved exactly when the whole days elapsed since the stored
  submission time reach the stored estimate. When they do, the returned result is the
  stored one with status Approved, the payout amount set to the estimated payout and the
  approval date set to the clock reading, and it replaces the stored result (no other
  file changes). When they do not, the stored result is returned as it is and the
  directory is unchanged.
\<close>

theorem check_status_transition:
  assumes stored: "map_of (result_files cd) jid = Some (Some r)"
    and sub: "status r = Some ''Submitted''"
  shows "\<exists>r' cd'. check_submission_status now cd jid = (Some r', cd')
     \<and> (status r' = Some ''Approved''
          \<longleftrightarrow> timedelta_days now (submission_time r) \<ge> estimated_processing_days r)
     \<and> (timedelta_days now (submission_time r) \<ge> estimated_processing_days r \<longrightarrow>
           r' = r\<lparr>status := Some ''Approved'',
                  payout_amount := Some (estimated_payout r),
                  approval_date := Some now\<rparr>
           \<and> map_of (result_files cd') jid = Some (Some r')
           \<and> (\<forall>k. k \<noteq> jid \<longrightarrow> map_of (result_files cd') k = map_of (result_files cd) k)
           \<and> claim_files cd' = claim_files cd)
     \<and> (timedelta_days now (submission_time r) < estimated_processing_days r \<longrightarrow>
           r' = r \<and> cd' = cd)"
proof (cases "timedelta_days now (submission_time r) \<ge> estimated_processing_days r")
  case True
  then show ?thesis
    using stored
    by (simp add: check_submission_status_def approve_def write_file_def update_conv' Let_def)
next
  case False
  then show ?thesis
    using stored sub
    by (simp add: check_submission_status_def Let_def)
qed

theorem check_status_transition_witness:
  "check_submission_status (at_date 2025 3 4) submitted_dir ''JOB-1''
     = (Some roof_submission, submitted_dir)
   \<and> (\<exists>cd'. check_submission_status (at_date 2025 3 6) submitted_dir ''JOB-1''
              = (Some (roof_submission\<lparr>status := Some ''Approved'',
                                        payout_amount := Some 4815,
                                        approval_date := Some (at_date 2025 3 6)\<rparr>), cd')
            \<and> map_of (result_files cd') ''JOB-1''
                = Some (Some (roof_submission\<lparr>status := Some ''Approved'',
                                               payout_amount := Some 4815,
                                               approval_date := Some (at_date 2025 3 6)\<rparr>)))"
proof -
  have stored: "map_of (result_files submitted_dir) ''JOB-1'' = Some (Some roof_submission)"
    by (simp add: submitted_dir_def)
  have sub: "status roof_submission = Some ''Submitted''"
    by (simp add: roof_submission_def)
  have fields: "submission_time roof_submission = at_date 2025 3 1"
    "estimated_processing_days roof_submission = 5" "estimated_payout roof_submission = 4815"
    by (simp_all add: roof_submission_def)
  have early: "check_submission_status (at_date 2025 3 4) submitted_dir ''JOB-1''
     = (Some roof_submission, submitted_dir)"
    using check_status_transition [OF stored sub, of "at_date 2025 3 4"]
    by (auto simp: fields days_4_march)
  have late: "\<exists>cd'. check_submission_status (at_date 2025 3 6) submitted_dir ''JOB-1''
              = (Some (roof_submission\<lparr>status := Some ''Approved'',
                                        payout_amount := Some 4815,
                                        approval_date := Some (at_date 2025 3 6)\<rparr>), cd')
            \<and> map_of (result_files cd') ''JOB-1''
                = Some (Some (roof_submission\<lparr>status := Some ''Approved'',
                                               payout_amount := Some 4815,
                                               approval_date := Some (at_date 2025 3 6)\<rparr>))"
    using check_status_transition [OF stored sub, of "at_date 2025 3 6"]
    by (auto simp: fields days_6_march)
  from early late show ?thesis by blast
qed

section \<open>Properties of the payment calculator\<close>

text \<open>The job id under which a payment is filed.\<close>

lemma process_payment_files:
  "process_payment uuid now w st info = (r, st') \<Longrightarrow>
     k \<noteq> str_of (sr_job_id (ci_result info)) \<Longrightarrow>
     map_of (payment_files st') k = map_of (payment_files st) k"
  by (auto simp: process_payment_def Let_def write_file_def update_conv' split: if_splits)

lemma process_payment_distinct:
  "process_payment uuid now w st info = (r, st') \<Longrightarrow>
     distinct (map fst (payment_files st)) \<Longrightarrow> distinct (map fst (payment_files st'))"
  by (auto simp: process_payment_def Let_def write_file_def distinct_update split: if_splits)

lemma process_payment_claims:
  "process_payment uuid now w st info = (r, st') \<Longrightarrow> claims st' = claims st"
  by (auto simp: process_payment_def Let_def split: if_splits)

lemma process_payment_record:
  "process_payment uuid now w st info = (Some p, st') \<Longrightarrow>
     pr_job_id p = sr_job_id (ci_result info)
     \<and> map_of (payment_files st') (str_of (pr_job_id p)) = Some (Some p)"
  by (auto simp: process_payment_def Let_def write_file_def update_conv' split: if_splits)

lemma process_payment_keeps_files:
  "process_payment uuid now w st info = (r, st') \<Longrightarrow>
     map_of (payment_files st) k \<noteq> None \<Longrightarrow> map_of (payment_files st') k \<noteq> None"
  by (auto simp: process_payment_def Let_def write_file_def update_conv' split: if_splits)

text \<open>A batch touches the payment files of the jobs in its list only.\<close>

lemma pay_each_files:
  "pay_each env i infos st = (recs, st') \<Longrightarrow>
     \<forall>info \<in> set infos. str_of (sr_job_id (ci_result info)) \<noteq> k \<Longrightarrow>
     map_of (payment_files st') k = map_of (payment_files st) k"
proof (induction infos arbitrary: i st recs st')
  case Nil
  then show ?case by simp
next
  case (Cons info infos)
  obtain r st1 where step:
    "process_payment (uuid_at env i) (clock_at env i) (writable_at env i) st info = (r, st1)"
    by (cases "process_payment (uuid_at env i) (clock_at env i) (writable_at env i) st info")
  obtain recs2 where rest: "pay_each env (Suc i) infos st1 = (recs2, st')"
    using Cons.prems(1) step by (cases r) (auto split: prod.splits)
  have "map_of (payment_files st') k = map_of (payment_files st1) k"
    using Cons.IH [OF rest] Cons.prems(2) by simp
  moreover have "map_of (payment_files st1) k = map_of (payment_files st) k"
    using process_payment_files [OF step, of k] Cons.prems(2) by auto
  ultimately show ?case by simp
qed

lemma pay_each_claims: "pay_each env i infos st = (recs, st') \<Longrightarrow> claims st' = claims st"
proof (induction infos arbitrary: i st recs st')
  case Nil
  then show ?case by simp
next
  case (Cons info infos)
  obtain r st1 where step:
    "process_payment (uuid_at env i) (clock_at env i) (writable_at env i) st info = (r, st1)"
    by (cases "process_payment (uuid_at env i) (clock_at env i) (writable_at env i) st info")
  obtain recs2 where rest: "pay_each env (Suc i) infos st1 = (recs2, st')"
    using Cons.prems(1) step by (cases r) (auto split: prod.splits)
  show ?case
    using Cons.IH [OF rest] process_payment_claims [OF step] by simp
qed

lemma pay_each_distinct:
  "pay_each env i infos st = (recs, st') \<Longrightarrow>
     distinct (map fst (payment_files st)) \<Longrightarrow> distinct (map fst (payment_files st'))"
proof (induction infos arbitrary: i st recs st')
  case Nil
  then show ?case by simp
next
  case (Cons info infos)
  obtain r st1 where step:
    "process_payment (uuid_at env i) (clock_at env i) (writable_at env i) st info = (r, st1)"
    by (cases "process_payment (uuid_at env i) (clock_at env i) (writable_at env i) st info")
  obtain recs2 where rest: "pay_each env (Suc i) infos st1 = (recs2, st')"
    using Cons.prems(1) step by (cases r) (auto split: prod.splits)
  show ?case
    using Cons.IH [OF rest] process_payment_distinct [OF step] Cons.prems(2) by simp
qed

lemma pay_each_keeps_files:
  "pay_each env i infos st = (recs, st') \<Longrightarrow>
     map_of (payment_files st) k \<noteq> None \<Longrightarrow> map_of (payment_files st') k \<noteq> None"
proof (induction infos arbitrary: i st recs st')
  case Nil
  then show ?case by simp
next
  case (Cons info infos)
  obtain r st1 where step:
    "process_payment (uuid_at env i) (clock_at env i) (writable_at env i) st info = (r, st1)"
    by (cases "process_payment (uuid_at env i) (clock_at env i) (writable_at env i) st info")
  obtain recs2 where rest: "pay_each env (Suc i) infos st1 = (recs2, st')"
    using Cons.prems(1) step by (cases r) (auto split: prod.splits)
  show ?case
    using Cons.IH [OF rest] process_payment_keeps_files [OF step Cons.prems(2)] by simp
qed

text \<open>Every record a batch returns is the record of a job of its list, and that job
  has a payment file afterwards.\<close>

lemma pay_each_records:
  "pay_each env i infos st = (recs, st') \<Longrightarrow> p \<in> set recs \<Longrightarrow>
     (\<exists>info \<in> set infos. pr_job_id p = sr_job_id (ci_result info))
     \<and> map_of (payment_files st') (str_of (pr_job_id p)) \<noteq> None"
proof (induction infos arbitrary: i st recs st')
  case Nil
  then show ?case by simp
next
  case (Cons info infos)
  obtain r st1 where step:
    "process_payment (uuid_at env i) (clock_at env i) (writable_at env i) st info = (r, st1)"
    by (cases "process_payment (uuid_at env i) (clock_at env i) (writable_at env i) st info")
  obtain recs2 where rest: "pay_each env (Suc i) infos st1 = (recs2, st')"
    and recs: "recs = (case r of None \<Rightarrow> recs2 | Some q \<Rightarrow> q # recs2)"
    using Cons.prems(1) step by (cases r) (auto split: prod.splits)
  show ?case
  proof (cases "p \<in> set recs2")
    case True
    then show ?thesis using Cons.IH [OF rest] by auto
  next
    case False
    with recs Cons.prems(2) have r: "r = Some p" by (cases r) auto
    from process_payment_record [OF step [unfolded r]]
    have id: "pr_job_id p = sr_job_id (ci_result info)"
      and stored: "map_of (payment_files st1) (str_of (pr_job_id p)) \<noteq> None"
      by auto
    from pay_each_keeps_files [OF rest stored] id show ?thesis by auto
  qed
qed

text \<open>The gate of \<open>get_approved_claims\<close>: no listed job has a payment file.\<close>

lemma approved_entry_unpaid:
  assumes "info \<in> set (approved_entry cd pays content)"
  shows "map_of pays (str_of (sr_job_id (ci_result info))) = None
     \<and> status (ci_result info) = Some ''Approved''"
proof (cases content)
  case None
  with assms show ?thesis by (simp add: approved_entry_def)
next
  case (Some result)
  let ?jid = "str_of (sr_job_id result)"
  have appr: "status result = Some ''Approved''"
  proof (rule ccontr)
    assume "status result \<noteq> Some ''Approved''"
    then have "approved_entry cd pays (Some result) = []"
      by (simp add: approved_entry_def)
    with assms Some show False by simp
  qed
  have unpaid: "map_of pays ?jid = None"
  proof (rule ccontr)
    assume "map_of pays ?jid \<noteq> None"
    then have "approved_entry cd pays (Some result) = []"
      by (auto simp: approved_entry_def file_exists_def Let_def)
    with assms Some show False by simp
  qed
  have "ci_result info = result"
  proof (cases "map_of (claim_files cd) ?jid")
    case None
    then have "approved_entry cd pays (Some result) = []"
      by (simp add: approved_entry_def Let_def)
    with assms Some show ?thesis by simp
  next
    case outer: (Some f)
    show ?thesis
    proof (cases f)
      case None
      with outer have "approved_entry cd pays (Some result) = []"
        by (simp add: approved_entry_def Let_def)
      with assms Some show ?thesis by simp
    next
      case (Some c)
      with outer appr unpaid
      have "approved_entry cd pays (Some result) = [\<lparr>ci_result = result, ci_claim = c\<rparr>]"
        by (simp add: approved_entry_def file_exists_def Let_def)
      with assms \<open>content = Some result\<close> show ?thesis by simp
    qed
  qed
  with appr unpaid show ?thesis by simp
qed

lemma get_approved_claims_unpaid:
  assumes "info \<in> set (get_approved_claims st)"
  shows "map_of (payment_files st) (str_of (sr_job_id (ci_result info))) = None
     \<and> status (ci_result info) = Some ''Approved''"
proof (cases "claims st")
  case None
  with assms show ?thesis by (simp add: get_approved_claims_def)
next
  case (Some cd)
  with assms obtain e where "e \<in> set (result_files cd)"
    "info \<in> set (approved_entry cd (payment_files st) (snd e))"
    by (auto simp: get_approved_claims_def)
  then show ?thesis using approved_entry_unpaid by blast
qed

lemma one_file_per_key:
  "distinct (map fst d) \<Longrightarrow> map_of d k \<noteq> None \<Longrightarrow> length (filter (\<lambda>e. fst e = k) d) = 1"
proof (induction d)
  case Nil
  then show ?case by simp
next
  case (Cons e d)
  show ?case
  proof (cases "fst e = k")
    case True
    with Cons.prems(1) have "k \<notin> fst ` set d" by auto
    then have "filter (\<lambda>e. fst e = k) d = []" by (auto simp: filter_empty_conv)
    with True show ?thesis by simp
  next
    case False
    with Cons show ?thesis by (cases e) auto
  qed
qed

lemma process_all_payments_run:
  "process_all_payments env st = (recs, st') \<Longrightarrow>
     pay_each env 0 (get_approved_claims st) st = (recs, st')"
  by (auto simp: process_all_payments_def Let_def split: if_splits)
text \<open>
  C3, as amended. The batch operation (\<open>get_approved_claims\<close>, then
  \<open>process_payment\<close> for each pair it lists) pays a job at most once: for a record
  returned by one run, a later run on the resulting store returns no record for that job
  and leaves the job's payment file as it was; the job has exactly one payment file when
  file names are distinct to begin with.
\<close>

theorem process_all_payments_at_most_once:
  assumes first: "process_all_payments env1 st = (recs1, st1)"
    and second: "process_all_payments env2 st1 = (recs2, st2)"
    and paid: "p \<in> set recs1"
    and names: "distinct (map fst (payment_files st))"
  shows "(\<forall>q \<in> set recs2. str_of (pr_job_id q) \<noteq> str_of (pr_job_id p))
     \<and> map_of (payment_files st2) (str_of (pr_job_id p))
         = map_of (payment_files st1) (str_of (pr_job_id p))
     \<and> map_of (payment_files st1) (str_of (pr_job_id p)) \<noteq> None
     \<and> length (filter (\<lambda>e. fst e = str_of (pr_job_id p)) (payment_files st2)) = 1"
proof -
  let ?k = "str_of (pr_job_id p)"
  note run1 = process_all_payments_run [OF first]
  note run2 = process_all_payments_run [OF second]
  from pay_each_records [OF run1 paid]
  have filed: "map_of (payment_files st1) ?k \<noteq> None" by simp
  have gate: "\<forall>info \<in> set (get_approved_claims st1). str_of (sr_job_id (ci_result info)) \<noteq> ?k"
    using get_approved_claims_unpaid [of _ st1] filed by metis
  have none: "\<forall>q \<in> set recs2. str_of (pr_job_id q) \<noteq> ?k"
  proof
    fix q assume "q \<in> set recs2"
    from pay_each_records [OF run2 this] gate show "str_of (pr_job_id q) \<noteq> ?k" by metis
  qed
  have same: "map_of (payment_files st2) ?k = map_of (payment_files st1) ?k"
    by (rule pay_each_files [OF run2 gate])
  have "distinct (map fst (payment_files st2))"
    using pay_each_distinct [OF run2] pay_each_distinct [OF run1] names by simp
  with filed same have "length (filter (\<lambda>e. fst e = ?k) (payment_files st2)) = 1"
    by (simp add: one_file_per_key)
  with none same filed show ?thesis by simp
qed

lemma first_run:
  "process_all_payments pay_env_1 approved_store = ([roof_payment], paid_store)"
  by (simp add: process_all_payments_def get_approved_claims_def approved_entry_def
      approved_store_def file_exists_def str_of_def approve_def roof_submission_def
      process_payment_def pay_env_1_def write_file_def calculate_contractor_payment_def
      claim_total_def roof_claim_def get_or_def Let_def roof_payment_def paid_store_def)

theorem process_all_payments_at_most_once_witness:
  "\<exists>p st1 recs2 st2.
     process_all_payments pay_env_1 approved_store = ([p], st1)
     \<and> process_all_payments pay_env_2 st1 = (recs2, st2)
     \<and> pr_job_id p = Some ''JOB-1''
     \<and> recs2 = []
     \<and> map_of (payment_files st2) ''JOB-1'' = Some (Some p)
     \<and> length (filter (\<lambda>e. fst e = ''JOB-1'') (payment_files st2)) = 1"
proof -
  obtain p st1 where first: "process_all_payments pay_env_1 approved_store = ([p], st1)"
    and job: "pr_job_id p = Some ''JOB-1''"
    and filed: "map_of (payment_files st1) ''JOB-1'' = Some (Some p)"
    using first_run by (simp add: roof_payment_def paid_store_def)
  obtain recs2 st2 where second: "process_all_payments pay_env_2 st1 = (recs2, st2)"
    by (cases "process_all_payments pay_env_2 st1")
  have names: "distinct (map fst (payment_files approved_store))"
    by (simp add: approved_store_def)
  have key: "str_of (pr_job_id p) = ''JOB-1''" by (simp add: job str_of_def)
  from process_all_payments_at_most_once [OF first second _ names, of p]
  have none: "\<forall>q \<in> set recs2. str_of (pr_job_id q) \<noteq> ''JOB-1''"
    and same: "map_of (payment_files st2) ''JOB-1'' = map_of (payment_files st1) ''JOB-1''"
    and one: "length (filter (\<lambda>e. fst e = ''JOB-1'') (payment_files st2)) = 1"
    by (simp_all add: key)
  have approved: "get_approved_claims st1 = []"
    using first first_run
    by (simp add: get_approved_claims_def approved_entry_def approved_store_def
        paid_store_def file_exists_def str_of_def approve_def roof_submission_def Let_def)
  with second have "recs2 = []" by (simp add: process_all_payments_def)
  with first second job same filed one show ?thesis by simp
qed

text \<open>
  C3, as stated, fails for \<open>process_payment\<close> itself: invoked twice on the same pair,
  the second invocation writes a new record (new payment id, new payment date) over the
  first one.
\<close>

theorem process_payment_twice_rewrites:
  "(\<exists>p1 st1 p2 st2.
      process_payment ''pay-1'' (at_date 2025 3 7) True approved_store roof_info = (Some p1, st1)
      \<and> process_payment ''pay-2'' (at_date 2025 3 8) True st1 roof_info = (Some p2, st2)
      \<and> map_of (payment_files st1) ''JOB-1'' = Some (Some p1)
      \<and> map_of (payment_files st2) ''JOB-1'' = Some (Some p2)
      \<and> payment_id p1 = ''pay-1'' \<and> payment_id p2 = ''pay-2''
      \<and> p1 \<noteq> p2 \<and> st1 \<noteq> st2)"
  by (simp add: process_payment_def roof_info_def approved_store_def approve_def
      roof_submission_def write_file_def str_of_def Let_def)



lemma records_in_range_empty:
  "(\<And>name rec. (name, Some rec) \<in> set d \<Longrightarrow> \<not> in_range sd ed rec)
     \<Longrightarrow> records_in_range sd ed d = []"
  by (fastforce simp: records_in_range_def split: option.splits)

text \<open>
  C9. When no readable payment record has its payment date in the interval, the report
  is produced (no ZeroDivisionError) with count 0, total paid 0, total claimed 0, average
  payment 0 and no records.
\<close>

theorem empty_report:
  assumes dates: "resolve_dates now start_arg end_arg = Inr (sd, ed)"
    and none: "\<And>name rec. (name, Some rec) \<in> set (payment_files st) \<Longrightarrow> \<not> in_range sd ed rec"
  shows "\<exists>report st'.
           generate_payment_report now can_write st start_arg end_arg = Inr (report, st')
           \<and> total_payments report = 0 \<and> total_amount report = 0
           \<and> report_total_claim_amount report = 0 \<and> average_payment report = 0
           \<and> payment_records report = []"
proof -
  have "records_in_range sd ed (payment_files st) = []"
    using none by (rule records_in_range_empty)
  then show ?thesis
    by (simp add: generate_payment_report_def dates Let_def)
qed

theorem empty_report_witness:
  "\<exists>report st'.
     generate_payment_report (at_date 2025 3 9) True paid_store (Day 739252) (Day 739282)
       = Inr (report, st')
     \<and> total_payments report = 0 \<and> total_amount report = 0
     \<and> average_payment report = 0 \<and> payment_records report = []"
proof -
  have dates: "resolve_dates (at_date 2025 3 9) (Day 739252) (Day 739282)
      = Inr (739252, 739282)"
    by (simp add: resolve_dates_def)
  have late: "\<not> in_range 739252 739282 roof_payment"
    by (simp add: in_range_def roof_payment_def micros_def toordinal_def
        days_before_year_def days_before_month_def days_in_month_def is_leap_def
        at_date_def micros_per_day_def upto.simps)
  have none: "\<And>name rec. (name, Some rec) \<in> set (payment_files paid_store)
      \<Longrightarrow> \<not> in_range 739252 739282 rec"
    using late by (simp add: paid_store_def)
  have "\<exists>report st'.
     generate_payment_report (at_date 2025 3 9) True paid_store (Day 739252) (Day 739282)
       = Inr (report, st')
     \<and> total_payments report = 0 \<and> total_amount report = 0
     \<and> report_total_claim_amount report = 0 \<and> average_payment report = 0
     \<and> payment_records report = []"
    by (rule empty_report [OF dates]) (rule none)
  then show ?thesis by blast
qed

section \<open>Properties of the damage assessor\<close>






lemma and_then_Inr [simp]: "and_then (Inr x) f = f x"
  by (simp add: and_then_def)

lemma and_then_Inl [simp]: "and_then (Inl e) f = Inl e"
  by (simp add: and_then_def)

lemma and_then_eq_Inr:
  "and_then r f = Inr y \<longleftrightarrow> (\<exists>x. r = Inr x \<and> f x = Inr y)"
  by (cases r) simp_all

lemma mean_Inr: "xs \<noteq> [] \<Longrightarrow> mean xs = Inr (sum_list xs / of_nat (length xs))"
  by (simp add: mean_def py_div_def)


lemma mean_Nil: "mean [] = Inl ZeroDivisionError"
  by (simp add: mean_def py_div_def)

lemma add_picks_keeps: "detected \<noteq> [] \<Longrightarrow> add_picks detected ps \<noteq> []"
  by (induction ps arbitrary: detected) simp_all

lemma add_picks_nonempty: "detected \<noteq> [] \<or> ps \<noteq> [] \<Longrightarrow> add_picks detected ps \<noteq> []"
proof (cases ps)
  case Nil
  then show "detected \<noteq> [] \<or> ps \<noteq> [] \<Longrightarrow> ?thesis" by simp
next
  case (Cons d ds)
  have "add_picks (if d \<notin> set detected then detected @ [d] else detected) ds \<noteq> []"
    by (rule add_picks_keeps) auto
  with Cons show ?thesis by simp
qed

lemma detect_damages_nonempty: "ps \<noteq> [] \<Longrightarrow> detect_damages reported ps \<noteq> []"
  by (simp add: detect_damages_def add_picks_nonempty)

text \<open>The first pick enters an empty working list.\<close>

lemma first_pick_selected:
  "reported \<notin> set known_damage_types \<Longrightarrow> hd (detect_damages reported (d # ds)) = d"
proof -
  have "\<And>acc. acc \<noteq> [] \<Longrightarrow> hd (add_picks acc ds) = hd acc"
    by (induction ds) auto
  then show "reported \<notin> set known_damage_types \<Longrightarrow> hd (detect_damages reported (d # ds)) = d"
    by (simp add: detect_damages_def)
qed

text \<open>
  With a hint that is a string or absent and one to three picks, the working list is not
  empty, both means are defined, and \<open>analyze_photo\<close> fails only when the job's report
  directory cannot be made.
\<close>

lemma analyze_photo_selects:
  assumes hint: "damage_type (pi_metadata info) \<noteq> Some JNull"
    and valid: "valid_picks dr"
  shows "analyze_photo fmt io uuid now dr st info \<noteq> Inl ZeroDivisionError
     \<and> analyze_photo fmt io uuid now dr st info \<noteq> Inl AttributeError
     \<and> (can_mkdir io \<longrightarrow>
          (\<exists>a st'. analyze_photo fmt io uuid now dr st info = Inr (a, st')
             \<and> damage_assessment a \<noteq> []))"
proof -
  obtain reported where rep: "reported_lower (pi_metadata info) = Inr reported"
    using hint
    by (cases "damage_type (pi_metadata info)"; cases "the (damage_type (pi_metadata info))")
       (auto simp: reported_lower_def get_or_def)
  let ?det = "detect_damages reported (picks dr)"
  from valid have picked: "picks dr \<noteq> []" by (auto simp: valid_picks_def)
  have ne: "?det \<noteq> []" using picked by (rule detect_damages_nonempty)
  then have m1: "mean (map (severity_draw dr) ?det)
      = Inr (sum_list (map (severity_draw dr) ?det) / of_nat (length ?det))"
    and m2: "mean (map (confidence_draw dr) ?det)
      = Inr (sum_list (map (confidence_draw dr) ?det) / of_nat (length ?det))"
    using mean_Inr [of "map (severity_draw dr) ?det"]
      mean_Inr [of "map (confidence_draw dr) ?det"] by simp_all
  show ?thesis
    using ne
    by (simp add: analyze_photo_def rep m1 m2 Let_def save_assessment_def)
qed

lemma analyze_photo_null:
  "damage_type (pi_metadata info) = Some JNull \<Longrightarrow>
     analyze_photo fmt io uuid now dr st info = Inl AttributeError"
  by (simp add: analyze_photo_def reported_lower_def get_or_def)

text \<open>
  C10. A photo record whose \<open>damage_type\<close> is \<open>null\<close>, as the upload endpoint stores
  it when the form has no damage type, makes \<open>analyze_photo\<close> raise AttributeError at
  \<open>.lower()\<close>: no category is selected and no assessment is made, whatever the draws.
  For every other record a category is selected and the means are defined
  (\<open>analyze_photo_selects\<close>).
\<close>

theorem analyze_photo_null_hint:
  "analyze_photo fmt io uuid now dr st null_hint_photo = Inl AttributeError"
  by (simp add: analyze_photo_def null_hint_photo_def roof_photo_def roof_md_def
      reported_lower_def get_or_def)





section \<open>Properties of the job aggregator\<close>

lemma require_all_ok:
  "list_all (\<lambda>x. x \<noteq> None) xs \<Longrightarrow> \<exists>ys. require_all xs = Inr ys \<and> length ys = length xs"
proof (induction xs)
  case Nil
  then show ?case by simp
next
  case (Cons x xs)
  then obtain v ys where "x = Some v" "require_all xs = Inr ys" "length ys = length xs"
    by auto
  then show ?case by simp
qed

lemma average_details_ok:
  assumes "ds \<noteq> []" and "list_all complete_details ds"
  shows "\<exists>avg. average_details ds = Inr avg"
proof -
  from assms(2) have "list_all (\<lambda>x. x \<noteq> None) (map severity ds)"
    and "list_all (\<lambda>x. x \<noteq> None) (map confidence ds)"
    by (simp_all add: list_all_iff complete_details_def)
  then obtain sevs confs where
    s: "require_all (map severity ds) = Inr sevs" "length sevs = length ds"
    and c: "require_all (map confidence ds) = Inr confs" "length confs = length ds"
    using require_all_ok [of "map severity ds"] require_all_ok [of "map confidence ds"]
    by auto
  from assms(1) s(2) c(2) have "sevs \<noteq> []" "confs \<noteq> []" by auto
  with assms(1) show ?thesis
    by (simp add: average_details_def s c mean_Inr)
qed

lemma average_all_ok:
  "list_all (\<lambda>g. snd g \<noteq> [] \<and> list_all complete_details (snd g)) groups
     \<Longrightarrow> \<exists>avgs. average_all groups = Inr avgs"
proof (induction groups)
  case Nil
  then show ?case by simp
next
  case (Cons g groups)
  obtain k ds where g: "g = (k, ds)" by (cases g)
  from Cons.prems g obtain avg where "average_details ds = Inr avg"
    using average_details_ok [of ds] by auto
  moreover from Cons obtain avgs where "average_all groups = Inr avgs" by auto
  ultimately show ?case by (simp add: g)
qed

lemma list_all_update:
  "list_all R d \<Longrightarrow> R (k, x) \<Longrightarrow> list_all R (AList.update k x d)"
  by (induction d) auto

lemma append_at_groups:
  assumes "list_all (\<lambda>g. snd g \<noteq> [] \<and> list_all Q (snd g)) d" and "Q v"
  shows "list_all (\<lambda>g. snd g \<noteq> [] \<and> list_all Q (snd g)) (append_at k v d)"
proof (cases "map_of d k")
  case None
  with assms show ?thesis by (simp add: append_at_def)
next
  case (Some vs)
  then have "(k, vs) \<in> set d" by (rule map_of_SomeD)
  with assms(1) have "list_all Q vs" by (auto simp: list_all_iff)
  with assms Some show ?thesis
    by (simp add: append_at_def list_all_update)
qed

lemma fold_append_at_groups:
  "list_all (\<lambda>g. snd g \<noteq> [] \<and> list_all Q (snd g)) acc \<Longrightarrow>
     list_all (\<lambda>kv. Q (snd kv)) kvs \<Longrightarrow>
     list_all (\<lambda>g. snd g \<noteq> [] \<and> list_all Q (snd g))
       (fold (\<lambda>(k, v). append_at k v) kvs acc)"
proof (induction kvs arbitrary: acc)
  case Nil
  then show ?case by simp
next
  case (Cons kv kvs)
  obtain k v where kv: "kv = (k, v)" by (cases kv)
  from Cons.prems kv have "list_all (\<lambda>g. snd g \<noteq> [] \<and> list_all Q (snd g)) (append_at k v acc)"
    by (simp add: append_at_groups)
  with Cons.IH [of "append_at k v acc"] Cons.prems(2) show ?case
    by (simp add: kv)
qed

lemma group_by_key_groups:
  "list_all (\<lambda>kv. Q (snd kv)) kvs \<Longrightarrow>
     list_all (\<lambda>g. snd g \<noteq> [] \<and> list_all Q (snd g)) (group_by_key kvs)"
  unfolding group_by_key_def by (rule fold_append_at_groups) simp_all

text \<open>
  C7. Without a readable report file for the job, \<open>generate_job_summary\<close> returns
  \<open>None\<close> (no error) and writes nothing. Every summary it returns has
  \<open>xactimate_ready\<close> true and counts at least one assessment. It does return one as soon
  as there is a readable report file, whatever the severities and confidences, provided
  the files have the keys it reads.
\<close>

theorem job_summary_readiness:
  "(get_job_assessments st jid = [] \<longrightarrow>
      generate_job_summary now can_write st jid = Inr (None, st))
   \<and> (\<forall>s st'. generate_job_summary now can_write st jid = Inr (Some s, st') \<longrightarrow>
        xactimate_ready s = Some True
        \<and> get_job_assessments st jid \<noteq> []
        \<and> assessment_count s = length (get_job_assessments st jid))
   \<and> (get_job_assessments st jid \<noteq> []
        \<and> list_all complete_file (get_job_assessments st jid) \<longrightarrow>
        (\<exists>s st'. generate_job_summary now can_write st jid = Inr (Some s, st')
           \<and> xactimate_ready s = Some True))"
proof (intro conjI allI impI)
  assume "get_job_assessments st jid = []"
  then show "generate_job_summary now can_write st jid = Inr (None, st)"
    by (simp add: generate_job_summary_def)
next
  fix s st'
  assume run: "generate_job_summary now can_write st jid = Inr (Some s, st')"
  then have ne: "get_job_assessments st jid \<noteq> []"
    by (auto simp: generate_job_summary_def Let_def)
  with run show "xactimate_ready s = Some True"
    by (auto simp: generate_job_summary_def Let_def and_then_eq_Inr)
  show "get_job_assessments st jid \<noteq> []" by (rule ne)
  from run ne show "assessment_count s = length (get_job_assessments st jid)"
    by (auto simp: generate_job_summary_def Let_def and_then_eq_Inr)
next
  let ?as = "get_job_assessments st jid"
  assume "?as \<noteq> [] \<and> list_all complete_file ?as"
  then have ne: "?as \<noteq> []" and complete: "list_all complete_file ?as" by simp_all
  have "list_all (\<lambda>kv. complete_details (snd kv)) (concat (map damage_assessment_of ?as))"
    using complete by (auto simp: list_all_iff complete_file_def)
  then obtain dsummary where
    d: "average_all (group_by_key (concat (map damage_assessment_of ?as))) = Inr dsummary"
    using average_all_ok group_by_key_groups by blast
  from complete have "list_all (\<lambda>x. x \<noteq> None) (map overall_severity_of ?as)"
    and "list_all (\<lambda>x. x \<noteq> None) (map overall_confidence_of ?as)"
    by (simp_all add: list_all_iff complete_file_def)
  then obtain sevs confs where
    s: "require_all (map overall_severity_of ?as) = Inr sevs" "length sevs = length ?as"
    and c: "require_all (map overall_confidence_of ?as) = Inr confs" "length confs = length ?as"
    using require_all_ok [of "map overall_severity_of ?as"]
      require_all_ok [of "map overall_confidence_of ?as"]
    by auto
  from ne s(2) c(2) have "sevs \<noteq> []" "confs \<noteq> []" by auto
  with ne show "\<exists>s st'. generate_job_summary now can_write st jid = Inr (Some s, st')
           \<and> xactimate_ready s = Some True"
    by (simp add: generate_job_summary_def Let_def d s c mean_Inr)
qed

theorem job_summary_readiness_witness:
  "generate_job_summary (at_date 2025 2 27) True upload_store ''JOB-1''
     = Inr (None, upload_store)
   \<and> (\<exists>s st'. generate_job_summary (at_date 2025 2 27) True assessed_store ''JOB-1''
                 = Inr (Some s, st')
          \<and> xactimate_ready s = Some True \<and> assessment_count s = 1)"
proof -
  have none: "get_job_assessments upload_store ''JOB-1'' = []"
    by (simp add: get_job_assessments_def upload_store_def)
  have one: "get_job_assessments assessed_store ''JOB-1'' = [AssessmentFile roof_assessment]"
    by (simp add: get_job_assessments_def assessed_store_def)
  have complete: "complete_file (AssessmentFile roof_assessment)"
    by code_simp
  have absent: "generate_job_summary (at_date 2025 2 27) True upload_store ''JOB-1''
     = Inr (None, upload_store)"
    using job_summary_readiness [of upload_store "''JOB-1''" "at_date 2025 2 27" True] none
    by simp
  note ready = job_summary_readiness [of assessed_store "''JOB-1''" "at_date 2025 2 27" True]
  from ready one complete obtain s st' where
    run: "generate_job_summary (at_date 2025 2 27) True assessed_store ''JOB-1''
                 = Inr (Some s, st')"
    by auto
  with ready one have "xactimate_ready s = Some True \<and> assessment_count s = 1"
    by auto
  with absent run show ?thesis by blast
qed

end
